theory Spec2Isabelle
  imports Main "HOL-Library.Sublist"
begin

section \<open>Values, errors and string helpers of \<open>scripts/arb_deploy.py\<close>\<close>

text \<open>
  A value read from a node's \<open>config.json\<close>. The script only ever does three things
  with such a value: concatenate it to a string (\<open>+\<close>, which raises TypeError unless the
  value is a \<open>str\<close>), call \<open>.replace\<close> on it (AttributeError unless it is a \<open>str\<close>),
  or format it with \<open>%s\<close> (which inserts \<open>str(value)\<close>). So a value that is not a string
  is represented by the text \<open>str()\<close> gives for it.
\<close>

datatype json = JStr string | JOther string

type_synonym config = "string \<rightharpoonup> json"

fun py_str :: "json \<Rightarrow> string" where
  "py_str (JStr s) = s"
| "py_str (JOther t) = t"

text \<open>Every way the script can stop: Python exceptions, and \<open>exit(status)\<close>.\<close>

datatype error =
    OSError
  | JSONDecodeError
  | KeyError string
  | AttributeError
  | TypeError
  | ValueError
  | Exception string
  | SystemExit int

text \<open>Truthiness of the optional command-line password (\<open>None\<close> and \<open>""\<close> are falsy).\<close>

fun truthy :: "string option \<Rightarrow> bool" where
  "truthy None = False"
| "truthy (Some s) = (s \<noteq> [])"

text \<open>
  \<open>str.replace(old, new)\<close>: every non-overlapping occurrence of \<open>old\<close>, scanning from the
  left, is replaced by \<open>new\<close>. For an empty \<open>old\<close> Python inserts \<open>new\<close> before every
  character and at the end.
\<close>

function replace :: "string \<Rightarrow> string \<Rightarrow> string \<Rightarrow> string" where
  "replace old new s =
     (if old = [] then new @ concat (map (\<lambda>c. c # new) s)
      else if s = [] then []
      else if prefix old s then new @ replace old new (drop (length old) s)
      else hd s # replace old new (tl s))"
  by pat_completeness auto
termination
  by (relation "measure (\<lambda>(old, new, s). length s)") auto

declare replace.simps [simp del]

text \<open>\<open>str(n)\<close> for a non-negative integer: its decimal digits.\<close>

definition digit_char :: "nat \<Rightarrow> char" where
  "digit_char d = ''0123456789'' ! d"

function str_nat :: "nat \<Rightarrow> string" where
  "str_nat n = (if n < 10 then [digit_char n] else str_nat (n div 10) @ [digit_char (n mod 10)])"
  by pat_completeness auto
termination
  by (relation "measure id") auto

declare str_nat.simps [simp del]

text \<open>
  The \<open>%\<close> operator on a template and a tuple of arguments, for templates whose only
  conversions are \<open>%s\<close> and \<open>%d\<close>. The arguments arrive already rendered (\<open>str(arg)\<close> for
  \<open>%s\<close>, the decimal digits for \<open>%d\<close>). Too few arguments and arguments left over raise
  TypeError; any other conversion character is outside the templates of this script and
  is reported as ValueError.
\<close>

fun py_format :: "string \<Rightarrow> string list \<Rightarrow> error + string" where
  "py_format [] [] = Inr []"
| "py_format [] (a # as) = Inl TypeError"
| "py_format [c] args = (if c = CHR ''%'' then Inl ValueError else
     (case py_format [] args of Inl e \<Rightarrow> Inl e | Inr r \<Rightarrow> Inr (c # r)))"
| "py_format (c # d # ds) args =
     (if c = CHR ''%'' then
        (if d = CHR ''s'' \<or> d = CHR ''d'' then
           (case args of
              [] \<Rightarrow> Inl TypeError
            | a # as \<Rightarrow> (case py_format ds as of Inl e \<Rightarrow> Inl e | Inr r \<Rightarrow> Inr (a @ r)))
         else Inl ValueError)
      else (case py_format (d # ds) args of Inl e \<Rightarrow> Inl e | Inr r \<Rightarrow> Inr (c # r)))"

section \<open>The docker-compose templates\<close>

definition DOCKER_COMPOSE_FILENAME :: string where
  "DOCKER_COMPOSE_FILENAME = ''docker-compose.yml''"

definition nl :: string where
  "nl = [CHR 0x0A]"

definition COMPOSE_HEADER :: string where
  "COMPOSE_HEADER =
     ''# Machine generated by `arb-deploy`. Do not version control.'' @ nl @
     ''version: '' @ [CHR 0x27] @ ''3'' @ [CHR 0x27] @ nl @
     ''networks:'' @ nl @
     ''    default:'' @ nl @
     ''        external:'' @ nl @
     ''            name: arb-network'' @ nl @
     ''services:'' @ nl @
     ''    arb-tx-aggregator:'' @ nl @
     ''        volumes:'' @ nl @
     ''            - %s:/home/user/state'' @ nl @
     ''        image: arb-validator'' @ nl @
     ''        entrypoint: '' @ [CHR 0x27] @ ''/home/user/go/bin/arb-tx-aggregator'' @ [CHR 0x27] @ nl @
     ''        command: %s state %s %s'' @ nl @
     ''        ports:'' @ nl @
     ''            - '' @ [CHR 0x27] @ ''1235:1235'' @ [CHR 0x27] @ nl @
     ''            - '' @ [CHR 0x27] @ ''8547:8547'' @ [CHR 0x27] @ nl"

definition compose_header :: "string \<Rightarrow> string \<Rightarrow> string \<Rightarrow> string \<Rightarrow> error + string" where
  "compose_header state_abspath extra_flags ws_port rollup_address =
     py_format COMPOSE_HEADER [state_abspath, extra_flags, ws_port, rollup_address]"

definition COMPOSE_VALIDATOR :: string where
  "COMPOSE_VALIDATOR =
     nl @
     ''    arb-validator%d:'' @ nl @
     ''        volumes:'' @ nl @
     ''            - %s:/home/user/state'' @ nl @
     ''        image: arb-validator'' @ nl @
     ''        command: validate %s state %s %s'' @ nl"

definition compose_validator ::
  "nat \<Rightarrow> string \<Rightarrow> string \<Rightarrow> string \<Rightarrow> string \<Rightarrow> error + string" where
  "compose_validator validator_id state_abspath extra_flags ws_port rollup_address =
     py_format COMPOSE_VALIDATOR
       [str_nat validator_id, state_abspath, extra_flags, ws_port, rollup_address]"

section \<open>The environment of one invocation\<close>

text \<open>
  A call of \<open>run\<close> from \<open>support.run\<close>, or of \<open>build_validator\<close>, or a write: what the
  script does to the outside, in order.
\<close>

datatype event =
    Run string bool bool bool
  | BuildValidator bool
  | Print string
  | WriteFile string string

text \<open>
  The working directory, the file system as the script looks at it, and what the external
  commands answer.
  \<^item> \<open>validator_dirs w rollup\<close>: the indices \<open>i\<close> for which
    \<open>os.path.exists(states_path % i)\<close> holds (finitely many);
  \<^item> \<open>config_files w rollup i\<close>: what opening and \<open>json.load\<close>-ing
    \<open>validator<i>/config.json\<close> gives when the directory exists: the dictionary, or the
    exception raised;
  \<^item> \<open>manifest w\<close>: the content of \<open>./docker-compose.yml\<close>, \<open>None\<close> when there is no such
    file;
  \<^item> \<open>docker_ps w\<close>: what the listing of running validator containers prints;
  \<^item> \<open>build_status w\<close>: what \<open>build_validator_docker.build_validator\<close> returns;
  \<^item> \<open>trace w\<close>: the events so far.
  The manifest file is taken to be writable, and external commands to leave it and the
  validator directories alone.
\<close>

record world =
  cwd :: string
  validator_dirs :: "string \<Rightarrow> nat list"
  config_files :: "string \<Rightarrow> nat \<Rightarrow> error + config"
  manifest :: "string option"
  docker_ps :: string
  build_status :: int
  trace :: "event list"

text \<open>
  Modelled from the spec: \<open>support.run.run\<close> is imported, its source is not part of
  \<open>scripts/arb_deploy.py\<close>. It executes the command (the Runtime Shell Adapter) and
  reports its output; here the call is recorded with its arguments \<open>sudo\<close>,
  \<open>capture_stdout\<close> and \<open>quiet\<close>.
\<close>

definition run :: "string \<Rightarrow> bool \<Rightarrow> bool \<Rightarrow> bool \<Rightarrow> world \<Rightarrow> world" where
  "run command sudo capture_stdout quiet w =
     w\<lparr>trace := trace w @ [Run command sudo capture_stdout quiet]\<rparr>"

text \<open>
  \<open>states_path % i\<close>, where \<open>states_path\<close> is the absolute path of
  \<open>rollups/<rollup>/validator%s\<close> (the rollup being a plain directory name).
\<close>

definition states_path :: "world \<Rightarrow> string \<Rightarrow> nat \<Rightarrow> string" where
  "states_path w rollup i = cwd w @ ''/rollups/'' @ rollup @ ''/validator'' @ str_nat i"

definition compose_path :: "world \<Rightarrow> string" where
  "compose_path w = cwd w @ ''/'' @ DOCKER_COMPOSE_FILENAME"

text \<open>
  Opening \<open>validator<i>/config.json\<close> and loading it: a directory that does not exist
  holds no file.
\<close>

definition open_config :: "world \<Rightarrow> string \<Rightarrow> nat \<Rightarrow> error + config" where
  "open_config w rollup i =
     (if i \<in> set (validator_dirs w rollup) then config_files w rollup i else Inl OSError)"

section \<open>Topology discovery\<close>

text \<open>
  The loop \<open>while True: if not os.path.exists(states_path % n_validators): break;
  n_validators += 1\<close>, from the value \<open>n\<close> of the counter.
\<close>

function discovery_loop :: "nat list \<Rightarrow> nat \<Rightarrow> nat" where
  "discovery_loop dirs n = (if n \<notin> set dirs then n else discovery_loop dirs (Suc n))"
  by pat_completeness auto
termination
proof (relation "measure (\<lambda>(dirs, n). Suc (Max (set dirs)) - n)")
  show "wf (measure (\<lambda>(dirs, n). Suc (Max (set dirs)) - n))" by simp
next
  fix dirs :: "nat list" and n :: nat
  assume "\<not> n \<notin> set dirs"
  then have "n \<le> Max (set dirs)" by simp
  then show "((dirs, Suc n), (dirs, n)) \<in> measure (\<lambda>(dirs, n). Suc (Max (set dirs)) - n)"
    by simp
qed

declare discovery_loop.simps [simp del]

text \<open>The counter starts at 1: \<open>n_validators = 1\<close>.\<close>

definition n_validators :: "world \<Rightarrow> string \<Rightarrow> nat" where
  "n_validators w rollup = discovery_loop (validator_dirs w rollup) 1"


section \<open>One node of the deployment\<close>

text \<open>
  The local variables of \<open>deploy\<close> that live across the iterations of its \<open>for\<close> loop.
  Python keeps them from one iteration to the next; each is assigned in an iteration
  before it is read there.
\<close>

record locals =
  contents :: string
  data :: config
  rollup_address :: json
  extra_flags :: string
  eth_url :: string

definition PASSWORD_MESSAGE :: string where
  "PASSWORD_MESSAGE = ''arb_deploy requires validator password through [--password=pass] parameter or in config.json file''"

text \<open>The endpoint rewrite, as written: the same substitution twice.\<close>

definition rewrite_eth_url :: "string \<Rightarrow> string" where
  "rewrite_eth_url u =
     replace ''localhost'' ''arb-bridge-eth-geth'' (replace ''localhost'' ''arb-bridge-eth-geth'' u)"

text \<open>The body of the \<open>with open(...) as json_file\<close> block, after \<open>json.load\<close>.\<close>

definition with_block :: "string option \<Rightarrow> config \<Rightarrow> locals \<Rightarrow> error + locals" where
  "with_block password d st =
     (let st = st\<lparr>data := d\<rparr> in
      case d ''rollup_address'' of
        None \<Rightarrow> Inl (KeyError ''rollup_address'')
      | Some ra \<Rightarrow>
     (let st = st\<lparr>rollup_address := ra\<rparr>;
          st = st\<lparr>extra_flags := []\<rparr> in
      case d ''eth_url'' of
        None \<Rightarrow> Inl (KeyError ''eth_url'')
      | Some (JOther t) \<Rightarrow> Inl AttributeError
      | Some (JStr u) \<Rightarrow>
     (let st = st\<lparr>eth_url := rewrite_eth_url u\<rparr> in
      if \<not> truthy password \<and> ''password'' \<in> dom d then
        (case d ''password'' of
           Some (JStr p) \<Rightarrow> Inr (st\<lparr>extra_flags := extra_flags st @ '' -password='' @ p\<rparr>)
         | _ \<Rightarrow> Inl TypeError)
      else if truthy password then
        (case password of
           Some p \<Rightarrow> Inr (st\<lparr>extra_flags := extra_flags st @ '' -password='' @ p\<rparr>)
         | None \<Rightarrow> Inl TypeError)
      else Inl (Exception PASSWORD_MESSAGE))))"

text \<open>One iteration of \<open>for i in range(0, n_validators)\<close>.\<close>

definition loop_body ::
  "string option \<Rightarrow> world \<Rightarrow> string \<Rightarrow> nat \<Rightarrow> locals \<Rightarrow> error + locals" where
  "loop_body password w rollup i st =
     (case open_config w rollup i of
        Inl e \<Rightarrow> Inl e
      | Inr d \<Rightarrow>
     (case with_block password d st of
        Inl e \<Rightarrow> Inl e
      | Inr st \<Rightarrow>
        if i = 0 then
          (case compose_header (states_path w rollup 0) (extra_flags st) (eth_url st)
                  (py_str (rollup_address st)) of
             Inl e \<Rightarrow> Inl e
           | Inr c \<Rightarrow> Inr (st\<lparr>contents := c\<rparr>))
        else
          (case (if ''blocktime'' \<in> dom (data st) then
                   (case py_format '' -blocktime=%s'' [py_str (the (data st ''blocktime''))] of
                      Inl e \<Rightarrow> Inl e
                    | Inr f \<Rightarrow> Inr (st\<lparr>extra_flags := extra_flags st @ f\<rparr>))
                 else Inr st) of
             Inl e \<Rightarrow> Inl e
           | Inr st \<Rightarrow>
          (case compose_validator i (states_path w rollup i) (extra_flags st) (eth_url st)
                  (py_str (rollup_address st)) of
             Inl e \<Rightarrow> Inl e
           | Inr c \<Rightarrow> Inr (st\<lparr>contents := contents st @ c\<rparr>)))))"

text \<open>The \<open>for\<close> loop over the indices, stopping at the first exception.\<close>

fun deploy_loop ::
  "string option \<Rightarrow> world \<Rightarrow> string \<Rightarrow> nat list \<Rightarrow> locals \<Rightarrow> error + locals" where
  "deploy_loop password w rollup [] st = Inr st"
| "deploy_loop password w rollup (i # is) st =
     (case loop_body password w rollup i st of
        Inl e \<Rightarrow> Inl e
      | Inr st' \<Rightarrow> deploy_loop password w rollup is st')"

section \<open>Halt, deploy and the command line\<close>

definition ps_filter :: string where
  "ps_filter = ''grep -e '' @ [CHR 0x27] @ ''arb-validator'' @ [CHR 0x27] @ '' | awk '' @
     [CHR 0x27] @ ''{ print $1 }'' @ [CHR 0x27]"

definition halt_docker :: "bool \<Rightarrow> world \<Rightarrow> world" where
  "halt_docker sudo_flag w =
     (let w = (if manifest w \<noteq> None then
                 run (''docker-compose -f ./'' @ DOCKER_COMPOSE_FILENAME @ '' down -t 0'')
                   sudo_flag True False w
               else w);
          w = run (''docker ps | '' @ ps_filter) sudo_flag True True w
      in if docker_ps w \<noteq> [] then
           (let w = run (''docker kill $('' @ (if sudo_flag then ''sudo '' else []) @
                         ''docker ps | '' @ ps_filter @ '')'') sudo_flag True False w
            in run (''docker rm $('' @ (if sudo_flag then ''sudo '' else []) @
                    ''docker ps -a | '' @ ps_filter @ '')'') sudo_flag True False w)
         else w)"

text \<open>
  The locals before the loop: \<open>contents = ""\<close>; the others are not assigned yet, and hold
  a placeholder that the loop body overwrites before reading.
\<close>

definition init_locals :: locals where
  "init_locals =
     \<lparr>contents = [], data = Map.empty, rollup_address = JOther [], extra_flags = [],
      eth_url = []\<rparr>"

definition up_command :: "world \<Rightarrow> string" where
  "up_command w = ''docker-compose -f '' @ compose_path w @ '' up''"

text \<open>The build phase: \<open>exit(1)\<close> when \<open>build_validator\<close> does not return 0.\<close>

definition build_phase :: "bool \<Rightarrow> bool \<Rightarrow> bool \<Rightarrow> world \<Rightarrow> (error + unit) \<times> world" where
  "build_phase sudo_flag build_flag up_flag w =
     (if \<not> up_flag \<or> build_flag then
        (let w = w\<lparr>trace := trace w @ [BuildValidator sudo_flag]\<rparr>
         in if build_status w \<noteq> 0 then (Inl (SystemExit 1), w) else (Inr (), w))
      else (Inr (), w))"

text \<open>The run phase: the announcement, then \<open>docker-compose up\<close>.\<close>

definition run_phase ::
  "bool \<Rightarrow> bool \<Rightarrow> bool \<Rightarrow> nat \<Rightarrow> json \<Rightarrow> world \<Rightarrow> (error + unit) \<times> world" where
  "run_phase sudo_flag build_flag up_flag n ra w =
     (if \<not> build_flag \<or> up_flag then
        (let w = w\<lparr>trace := trace w @
                   [Print (''Deploying '' @ str_nat n @ '' validators for rollup '' @ py_str ra)]\<rparr>
         in (Inr (), run (up_command w) sudo_flag False False w))
      else (Inr (), w))"

definition deploy ::
  "bool \<Rightarrow> bool \<Rightarrow> bool \<Rightarrow> string \<Rightarrow> string option \<Rightarrow> world \<Rightarrow> (error + unit) \<times> world" where
  "deploy sudo_flag build_flag up_flag rollup password w =
     (let w = halt_docker sudo_flag w;
          n = n_validators w rollup
      in case deploy_loop password w rollup [0..<n] init_locals of
           Inl e \<Rightarrow> (Inl e, w)
         | Inr st \<Rightarrow>
          (let w = w\<lparr>manifest := Some (contents st),
                      trace := trace w @ [WriteFile (compose_path w) (contents st)]\<rparr>
           in case build_phase sudo_flag build_flag up_flag w of
                (Inl e, w) \<Rightarrow> (Inl e, w)
              | (Inr u, w) \<Rightarrow> run_phase sudo_flag build_flag up_flag n (rollup_address st) w))"

text \<open>
  What the command line supplies. \<open>parse_args\<close> is the parser that \<open>main\<close> declares: a
  required positional \<open>rollup\<close>, \<open>--password\<close>, \<open>--sudo\<close>, and \<open>--build\<close> and \<open>--up\<close> in a
  mutually exclusive group; argparse rejects a command line with exit status 2.
  A keyboard interrupt, which the script turns into exit status 1, is not modelled.
\<close>

record cmdline =
  arg_rollup :: "string option"
  arg_password :: "string option"
  arg_sudo :: bool
  arg_build :: bool
  arg_up :: bool

definition parse_args :: "cmdline \<Rightarrow> error + string" where
  "parse_args c =
     (if arg_build c \<and> arg_up c then Inl (SystemExit 2)
      else case arg_rollup c of None \<Rightarrow> Inl (SystemExit 2) | Some r \<Rightarrow> Inr r)"

definition main :: "cmdline \<Rightarrow> world \<Rightarrow> (error + unit) \<times> world" where
  "main c w =
     (let w = run ''./scripts/create-network'' False False False w
      in case parse_args c of
           Inl e \<Rightarrow> (Inl e, w)
         | Inr rollup \<Rightarrow> deploy (arg_sudo c) (arg_build c) (arg_up c) rollup (arg_password c) w)"

section \<open>Well-formed node configurations and example environments\<close>

text \<open>
  The node configuration of the data model: \<open>rollup_address\<close> is present, \<open>eth_url\<close> is a
  string, and \<open>password\<close>, when present, is a string.
\<close>

definition node_config_ok :: "config \<Rightarrow> bool" where
  "node_config_ok d =
     ((case d ''rollup_address'' of None \<Rightarrow> False | Some v \<Rightarrow> True) \<and>
      (case d ''eth_url'' of Some (JStr u) \<Rightarrow> True | _ \<Rightarrow> False) \<and>
      (case d ''password'' of Some (JOther t) \<Rightarrow> False | _ \<Rightarrow> True))"

definition cfg_a :: config where
  "cfg_a = [''rollup_address'' \<mapsto> JStr ''0xabc'', ''eth_url'' \<mapsto> JStr ''ws://localhost:1234'',
            ''password'' \<mapsto> JStr ''p0'', ''blocktime'' \<mapsto> JOther ''100'']"

definition cfg_b :: config where
  "cfg_b = [''rollup_address'' \<mapsto> JStr ''0xabc'', ''eth_url'' \<mapsto> JStr ''ws://localhost:1234'',
            ''blocktime'' \<mapsto> JOther ''5'']"

text \<open>
  An environment with the given validator directories and build status: node 0 holds
  \<open>cfg_a\<close>, every other node \<open>cfg_b\<close> (which has no password); a manifest of an earlier run
  exists, and no validator container is running.
\<close>

definition example_world :: "nat list \<Rightarrow> int \<Rightarrow> world" where
  "example_world dirs status =
     \<lparr>cwd = ''/srv'', validator_dirs = (\<lambda>r. dirs),
      config_files = (\<lambda>r i. if i = 0 then Inr cfg_a else Inr cfg_b),
      manifest = Some ''old'', docker_ps = [], build_status = status, trace = []\<rparr>"

definition both_flags :: cmdline where
  "both_flags =
     \<lparr>arg_rollup = Some ''mychain'', arg_password = Some ''pw'', arg_sudo = False,
      arg_build = True, arg_up = True\<rparr>"

text \<open>
  Named environments: two nodes; two nodes and a failing build; directories 0, 1, 2 and a
  stray 4; directories 1 and 2 but no directory 0; no validator directory at all.
\<close>

definition two_nodes :: world where
  "two_nodes = example_world [0, 1] 0"

definition failing_build :: world where
  "failing_build = example_world [0] 2"




section \<open>The endpoint rewrite\<close>

lemma replace_Nil: "old \<noteq> [] \<Longrightarrow> replace old new [] = []"
  by (simp add: replace.simps)

lemma replace_match:
  "old \<noteq> [] \<Longrightarrow> prefix old (c # cs) \<Longrightarrow>
   replace old new (c # cs) = new @ replace old new (drop (length old) (c # cs))"
  by (subst replace.simps) simp

lemma replace_skip:
  "old \<noteq> [] \<Longrightarrow> \<not> prefix old (c # cs) \<Longrightarrow>
   replace old new (c # cs) = c # replace old new cs"
  by (subst replace.simps) simp

lemma replace_other_head:
  "c \<noteq> CHR ''l'' \<Longrightarrow>
   replace ''localhost'' new (c # cs) = c # replace ''localhost'' new cs"
  by (rule replace_skip) auto

lemma replace_through_new:
  "replace ''localhost'' ''arb-bridge-eth-geth'' (''arb-bridge-eth-geth'' @ x) =
   ''arb-bridge-eth-geth'' @ replace ''localhost'' ''arb-bridge-eth-geth'' x"
  by (simp add: replace_other_head)

lemma prefix_replace_back:
  "old \<noteq> [] \<Longrightarrow> length p < length new \<Longrightarrow> \<forall>k<length p. \<not> prefix (drop k p) new \<Longrightarrow>
   prefix p (replace old new t) \<Longrightarrow> prefix p t"
proof (induction t arbitrary: p rule: length_induct)
  case (1 t)
  show ?case
  proof (cases p)
    case Nil
    then show ?thesis by simp
  next
    case (Cons a p')
    show ?thesis
    proof (cases t)
      case Nil
      with 1 Cons show ?thesis by (simp add: replace_Nil)
    next
      case (Cons c cs)
      show ?thesis
      proof (cases "prefix old t")
        case True
        with 1(2) Cons have "replace old new t = new @ replace old new (drop (length old) t)"
          by (simp add: replace_match)
        with 1(5) have "prefix p (new @ replace old new (drop (length old) t))" by simp
        with 1(3) have "prefix p new"
          by (metis prefix_append not_le le_add1 length_append)
        moreover from 1(4) \<open>p = a # p'\<close> have "\<not> prefix p new" by force
        ultimately show ?thesis by simp
      next
        case False
        with 1(2) Cons have r: "replace old new t = c # replace old new cs"
          by (simp add: replace_skip)
        with 1(5) \<open>p = a # p'\<close> have ac: "a = c" and pp: "prefix p' (replace old new cs)" by simp_all
        have "\<forall>k<length p'. \<not> prefix (drop k p') new"
        proof (intro allI impI)
          fix k assume "k < length p'"
          with 1(4) \<open>p = a # p'\<close> have "\<not> prefix (drop (Suc k) p) new" by auto
          with \<open>p = a # p'\<close> show "\<not> prefix (drop k p') new" by simp
        qed
        moreover from 1(3) \<open>p = a # p'\<close> have "length p' < length new" by simp
        ultimately have "prefix p' cs" using 1(1) 1(2) pp Cons by auto
        with ac \<open>p = a # p'\<close> Cons show ?thesis by simp
      qed
    qed
  qed
qed

lemma tail_not_prefix_new:
  "\<forall>k<length ''ocalhost''. \<not> prefix (drop k ''ocalhost'') ''arb-bridge-eth-geth''"
proof (intro allI impI)
  fix k :: nat assume "k < length ''ocalhost''"
  then have "k \<in> {0,1,2,3,4,5,6,7}" by auto
  then show "\<not> prefix (drop k ''ocalhost'') ''arb-bridge-eth-geth''"
    by auto
qed

lemma occurrence_not_created:
  assumes old: "old = a # p"
    and len: "length p < length new"
    and tails: "\<forall>k<length p. \<not> prefix (drop k p) new"
    and no: "\<not> prefix old (c # cs)"
  shows "\<not> prefix old (c # replace old new cs)"
proof
  assume "prefix old (c # replace old new cs)"
  then have "prefix (a # p) (c # replace old new cs)" by (simp only: old)
  then have c: "a = c" and pr: "prefix p (replace old new cs)"
    by simp_all
  from old have "old \<noteq> []" by simp
  then have "prefix p cs"
    using len tails pr by (rule prefix_replace_back)
  with c old no show False by simp
qed

lemma replace_idem_if:
  assumes old: "old = a # p"
    and len: "length p < length new"
    and tails: "\<forall>k<length p. \<not> prefix (drop k p) new"
    and through: "\<And>x. replace old new (new @ x) = new @ replace old new x"
  shows "replace old new (replace old new s) = replace old new s"
proof (induction s rule: length_induct)
  case (1 s)
  from old have ne: "old \<noteq> []" by simp
  show ?case
  proof (cases s)
    case Nil
    with ne show ?thesis by (simp add: replace_Nil)
  next
    case (Cons c cs)
    show ?thesis
    proof (cases "prefix old s")
      case True
      with Cons ne have e: "replace old new s = new @ replace old new (drop (length old) s)"
        by (simp add: replace_match)
      have "length (drop (length old) s) < length s" using Cons ne by simp
      with 1 have "replace old new (replace old new (drop (length old) s)) =
          replace old new (drop (length old) s)" by blast
      with e show ?thesis by (simp only: through)
    next
      case False
      with Cons ne have e: "replace old new s = c # replace old new cs"
        by (simp add: replace_skip)
      from False Cons have "\<not> prefix old (c # replace old new cs)"
        using occurrence_not_created [OF old len tails] by simp
      with ne have "replace old new (c # replace old new cs)
         = c # replace old new (replace old new cs)"
        by (simp add: replace_skip)
      moreover have "replace old new (replace old new cs) = replace old new cs"
        using 1 Cons by simp
      ultimately show ?thesis using e by simp
    qed
  qed
qed

lemma replace_localhost_idem:
  "replace ''localhost'' ''arb-bridge-eth-geth'' (replace ''localhost'' ''arb-bridge-eth-geth'' s) =
   replace ''localhost'' ''arb-bridge-eth-geth'' s"
  by (rule replace_idem_if [where a = "CHR ''l''" and p = "''ocalhost''"])
     (simp_all add: tail_not_prefix_new replace_through_new del: append.simps)

text \<open>
  C9. The endpoint rewrite performs the substitution of \<open>localhost\<close> by
  \<open>arb-bridge-eth-geth\<close> twice; for every \<open>eth_url\<close> string the result is that of a single
  substitution, and substituting again changes nothing.
\<close>

theorem endpoint_rewrite_idempotent:
  "rewrite_eth_url u = replace ''localhost'' ''arb-bridge-eth-geth'' u \<and>
   replace ''localhost'' ''arb-bridge-eth-geth'' (rewrite_eth_url u) = rewrite_eth_url u"
  by (simp add: rewrite_eth_url_def replace_localhost_idem)

theorem endpoint_rewrite_idempotent_witness:
  "rewrite_eth_url ''ws://localhost:1234'' = ''ws://arb-bridge-eth-geth:1234'' \<and>
   replace ''localhost'' ''arb-bridge-eth-geth'' ''ws://arb-bridge-eth-geth:1234'' =
     ''ws://arb-bridge-eth-geth:1234''"
  using endpoint_rewrite_idempotent [of "''ws://localhost:1234''"]
  by (simp add: replace.simps)

section \<open>The templates, filled in\<close>

lemma compose_header_eq:
  "compose_header sp fl ws ra = Inr (
     ''# Machine generated by `arb-deploy`. Do not version control.'' @ nl @
     ''version: '' @ [CHR 0x27] @ ''3'' @ [CHR 0x27] @ nl @
     ''networks:'' @ nl @
     ''    default:'' @ nl @
     ''        external:'' @ nl @
     ''            name: arb-network'' @ nl @
     ''services:'' @ nl @
     ''    arb-tx-aggregator:'' @ nl @
     ''        volumes:'' @ nl @
     ''            - '' @ sp @ '':/home/user/state'' @ nl @
     ''        image: arb-validator'' @ nl @
     ''        entrypoint: '' @ [CHR 0x27] @ ''/home/user/go/bin/arb-tx-aggregator'' @ [CHR 0x27] @ nl @
     ''        command: '' @ fl @ '' state '' @ ws @ '' '' @ ra @ nl @
     ''        ports:'' @ nl @
     ''            - '' @ [CHR 0x27] @ ''1235:1235'' @ [CHR 0x27] @ nl @
     ''            - '' @ [CHR 0x27] @ ''8547:8547'' @ [CHR 0x27] @ nl)"
  by (simp add: compose_header_def COMPOSE_HEADER_def nl_def)

lemma compose_validator_eq:
  "compose_validator i sp fl ws ra = Inr (
     nl @
     ''    arb-validator'' @ str_nat i @ '':'' @ nl @
     ''        volumes:'' @ nl @
     ''            - '' @ sp @ '':/home/user/state'' @ nl @
     ''        image: arb-validator'' @ nl @
     ''        command: validate '' @ fl @ '' state '' @ ws @ '' '' @ ra @ nl)"
  by (simp add: compose_validator_def COMPOSE_VALIDATOR_def nl_def)

lemma blocktime_format: "py_format '' -blocktime=%s'' [v] = Inr ('' -blocktime='' @ v)"
  by simp

section \<open>Decimal rendering\<close>

lemma str_nat_small: "n < 10 \<Longrightarrow> str_nat n = [digit_char n]"
  by (subst str_nat.simps) simp

lemma str_nat_big: "\<not> n < 10 \<Longrightarrow> str_nat n = str_nat (n div 10) @ [digit_char (n mod 10)]"
  by (subst str_nat.simps) simp

lemma str_nat_not_Nil: "str_nat n \<noteq> []"
  by (subst str_nat.simps) simp

lemma digit_char_inj: "a < 10 \<Longrightarrow> b < 10 \<Longrightarrow> digit_char a = digit_char b \<Longrightarrow> a = b"
proof -
  assume a: "a < 10" and b: "b < 10" and e: "digit_char a = digit_char b"
  have "distinct ''0123456789''" by simp
  moreover have "a < length ''0123456789''" "b < length ''0123456789''" using a b by simp_all
  ultimately show "a = b" using e unfolding digit_char_def
    by (simp only: nth_eq_iff_index_eq)
qed

lemma str_nat_inj: "str_nat i = str_nat j \<Longrightarrow> i = j"
proof (induction i arbitrary: j rule: less_induct)
  case (less i)
  show ?case
  proof (cases "i < 10")
    case True
    show ?thesis
    proof (cases "j < 10")
      case j: True
      with True less.prems show ?thesis
        by (simp add: str_nat_small digit_char_inj)
    next
      case j: False
      with True less.prems have "[digit_char i] = str_nat (j div 10) @ [digit_char (j mod 10)]"
        by (simp add: str_nat_small str_nat_big)
      then show ?thesis using str_nat_not_Nil [of "j div 10"] by simp
    qed
  next
    case False
    show ?thesis
    proof (cases "j < 10")
      case j: True
      with False less.prems have "str_nat (i div 10) @ [digit_char (i mod 10)] = [digit_char j]"
        by (simp add: str_nat_small str_nat_big)
      then show ?thesis using str_nat_not_Nil [of "i div 10"] by simp
    next
      case j: False
      with False less.prems have "str_nat (i div 10) = str_nat (j div 10)"
        and d: "digit_char (i mod 10) = digit_char (j mod 10)"
        by (simp_all add: str_nat_big)
      moreover have "i div 10 < i" using False by simp
      ultimately have "i div 10 = j div 10" using less.IH by blast
      moreover from d have "i mod 10 = j mod 10" by (simp add: digit_char_inj)
      ultimately show ?thesis by (metis div_mult_mod_eq)
    qed
  qed
qed

section \<open>Properties of the discovery\<close>







section \<open>Password, flags and block of one node\<close>

lemma with_block_eq:
  "with_block password d st =
     (case d ''rollup_address'' of
        None \<Rightarrow> Inl (KeyError ''rollup_address'')
      | Some ra \<Rightarrow>
       (case d ''eth_url'' of
          None \<Rightarrow> Inl (KeyError ''eth_url'')
        | Some (JOther t) \<Rightarrow> Inl AttributeError
        | Some (JStr u) \<Rightarrow>
           (if truthy password then
              Inr \<lparr>contents = contents st, data = d, rollup_address = ra,
                   extra_flags = '' -password='' @ the password, eth_url = rewrite_eth_url u\<rparr>
            else
              (case d ''password'' of
                 None \<Rightarrow> Inl (Exception PASSWORD_MESSAGE)
               | Some (JOther t) \<Rightarrow> Inl TypeError
               | Some (JStr p) \<Rightarrow>
                   Inr \<lparr>contents = contents st, data = d, rollup_address = ra,
                        extra_flags = '' -password='' @ p, eth_url = rewrite_eth_url u\<rparr>))))"
  by (cases st; cases password)
     (auto simp: with_block_def Let_def split: option.splits json.splits)

lemma with_block_Inr:
  assumes "with_block password d st = Inr st1"
  shows "\<exists>ra u pw. d ''rollup_address'' = Some ra \<and> d ''eth_url'' = Some (JStr u) \<and>
           (if truthy password then password = Some pw else d ''password'' = Some (JStr pw)) \<and>
           st1 = \<lparr>contents = contents st, data = d, rollup_address = ra,
                  extra_flags = '' -password='' @ pw, eth_url = rewrite_eth_url u\<rparr>"
  using assms
  by (cases password) (auto simp: with_block_eq split: option.splits json.splits if_splits)

lemma loop_body_eq:
  "loop_body password w rollup i st =
     (case open_config w rollup i of
        Inl e \<Rightarrow> Inl e
      | Inr d \<Rightarrow>
       (case with_block password d st of
          Inl e \<Rightarrow> Inl e
        | Inr st1 \<Rightarrow>
            if i = 0 then
              Inr (st1\<lparr>contents :=
                ''# Machine generated by `arb-deploy`. Do not version control.'' @ nl @
                ''version: '' @ [CHR 0x27] @ ''3'' @ [CHR 0x27] @ nl @
                ''networks:'' @ nl @
                ''    default:'' @ nl @
                ''        external:'' @ nl @
                ''            name: arb-network'' @ nl @
                ''services:'' @ nl @
                ''    arb-tx-aggregator:'' @ nl @
                ''        volumes:'' @ nl @
                ''            - '' @ states_path w rollup 0 @ '':/home/user/state'' @ nl @
                ''        image: arb-validator'' @ nl @
                ''        entrypoint: '' @ [CHR 0x27] @ ''/home/user/go/bin/arb-tx-aggregator'' @
                   [CHR 0x27] @ nl @
                ''        command: '' @ extra_flags st1 @ '' state '' @ eth_url st1 @ '' '' @
                   py_str (rollup_address st1) @ nl @
                ''        ports:'' @ nl @
                ''            - '' @ [CHR 0x27] @ ''1235:1235'' @ [CHR 0x27] @ nl @
                ''            - '' @ [CHR 0x27] @ ''8547:8547'' @ [CHR 0x27] @ nl\<rparr>)
            else
              (let fl = (if ''blocktime'' \<in> dom d
                         then extra_flags st1 @ '' -blocktime='' @ py_str (the (d ''blocktime''))
                         else extra_flags st1)
               in Inr (st1\<lparr>extra_flags := fl,
                    contents := contents st @
                      nl @
                      ''    arb-validator'' @ str_nat i @ '':'' @ nl @
                      ''        volumes:'' @ nl @
                      ''            - '' @ states_path w rollup i @ '':/home/user/state'' @ nl @
                      ''        image: arb-validator'' @ nl @
                      ''        command: validate '' @ fl @ '' state '' @ eth_url st1 @ '' '' @
                         py_str (rollup_address st1) @ nl\<rparr>))))"
proof (cases "open_config w rollup i")
  case (Inl e)
  then show ?thesis by (simp add: loop_body_def)
next
  case (Inr d)
  show ?thesis
  proof (cases "with_block password d st")
    case (Inl e)
    with Inr show ?thesis by (simp add: loop_body_def)
  next
    case st1: (Inr st1)
    from with_block_Inr [OF st1] have "data st1 = d" "contents st1 = contents st" by auto
    with Inr st1 show ?thesis
      by (simp add: loop_body_def compose_header_eq compose_validator_eq blocktime_format
          Let_def del: append.simps append_assoc)
  qed
qed

text \<open>
  C1. Password resolution precedence. For a node whose configuration has a
  \<open>rollup_address\<close> and a string \<open>eth_url\<close>: with a non-empty command-line password X the
  resolved flags are exactly \<open>-password=X\<close>, whatever the configuration says about a
  password (so a configured password never reaches the flags); with no command-line
  password and a configured password Y the flags are \<open>-password=Y\<close>.
\<close>

theorem password_precedence:
  assumes "d ''rollup_address'' = Some ra" and "d ''eth_url'' = Some (JStr u)"
  shows "(X \<noteq> [] \<longrightarrow>
            with_block (Some X) d st =
              Inr \<lparr>contents = contents st, data = d, rollup_address = ra,
                   extra_flags = '' -password='' @ X, eth_url = rewrite_eth_url u\<rparr>) \<and>
         (\<not> truthy cli \<longrightarrow> d ''password'' = Some (JStr Y) \<longrightarrow>
            with_block cli d st =
              Inr \<lparr>contents = contents st, data = d, rollup_address = ra,
                   extra_flags = '' -password='' @ Y, eth_url = rewrite_eth_url u\<rparr>)"
  using assms by (simp add: with_block_eq)

theorem password_precedence_witness:
  "cfg_a ''password'' = Some (JStr ''p0'') \<and>
   with_block (Some ''X'') cfg_a init_locals =
     Inr \<lparr>contents = [], data = cfg_a, rollup_address = JStr ''0xabc'',
          extra_flags = '' -password=X'', eth_url = rewrite_eth_url ''ws://localhost:1234''\<rparr> \<and>
   with_block None cfg_a init_locals =
     Inr \<lparr>contents = [], data = cfg_a, rollup_address = JStr ''0xabc'',
          extra_flags = '' -password=p0'', eth_url = rewrite_eth_url ''ws://localhost:1234''\<rparr>"
proof -
  have ra: "cfg_a ''rollup_address'' = Some (JStr ''0xabc'')"
    and u: "cfg_a ''eth_url'' = Some (JStr ''ws://localhost:1234'')"
    and p: "cfg_a ''password'' = Some (JStr ''p0'')"
    by (simp_all add: cfg_a_def)
  from password_precedence [OF ra u, of "''X''" init_locals None "''p0''"] p
  show ?thesis by (simp add: init_locals_def)
qed

text \<open>
  C5. Blocktime scoping. For a node whose configuration has a \<open>blocktime\<close> field and
  whose password resolves to \<open>pw\<close>: at index 0 the rendered flags are the password flag
  alone, with no \<open>-blocktime\<close> flag appended; at every index from 1 on they are the password
  flag followed by \<open>-blocktime=<value>\<close> with that configuration's value.
\<close>

theorem blocktime_scoping:
  assumes "open_config w rollup i = Inr d"
    and "with_block password d st = Inr st1"
    and "d ''blocktime'' = Some v"
  shows "\<exists>pw st'. loop_body password w rollup i st = Inr st' \<and>
           (if truthy password then password = Some pw else d ''password'' = Some (JStr pw)) \<and>
           extra_flags st' =
             (if i = 0 then '' -password='' @ pw
              else '' -password='' @ pw @ '' -blocktime='' @ py_str v)"
proof -
  from with_block_Inr [OF assms(2)] obtain ra u pw where
    pw: "if truthy password then password = Some pw else d ''password'' = Some (JStr pw)"
    and st1: "st1 = \<lparr>contents = contents st, data = d, rollup_address = ra,
                  extra_flags = '' -password='' @ pw, eth_url = rewrite_eth_url u\<rparr>"
    by blast
  from assms(3) have "''blocktime'' \<in> dom d" by auto
  with assms st1 have "\<exists>st'. loop_body password w rollup i st = Inr st' \<and>
      extra_flags st' =
             (if i = 0 then '' -password='' @ pw
              else '' -password='' @ pw @ '' -blocktime='' @ py_str v)"
    by (simp add: loop_body_eq Let_def del: append.simps)
  with pw show ?thesis by blast
qed

theorem blocktime_scoping_witness:
  "(\<exists>st'. loop_body (Some ''pw'') (example_world [0, 1] 0) ''mychain'' 0 init_locals = Inr st' \<and>
          extra_flags st' = '' -password=pw'') \<and>
   (\<exists>st'. loop_body None (example_world [0, 1] 0) ''mychain'' 0 init_locals = Inr st' \<and>
          extra_flags st' = '' -password=p0'') \<and>
   (\<exists>st'. loop_body (Some ''pw'') (example_world [0, 1] 0) ''mychain'' 1 init_locals = Inr st' \<and>
          extra_flags st' = '' -password=pw -blocktime=5'')"
proof -
  let ?w = "example_world [0, 1] 0"
  have o0: "open_config ?w ''mychain'' 0 = Inr cfg_a"
    and o1: "open_config ?w ''mychain'' 1 = Inr cfg_b"
    by (simp_all add: open_config_def example_world_def)
  have b0: "cfg_a ''blocktime'' = Some (JOther ''100'')"
    and b1: "cfg_b ''blocktime'' = Some (JOther ''5'')"
    by (simp_all add: cfg_a_def cfg_b_def)
  have w0: "with_block (Some ''pw'') cfg_a init_locals =
      Inr \<lparr>contents = [], data = cfg_a, rollup_address = JStr ''0xabc'',
           extra_flags = '' -password=pw'', eth_url = rewrite_eth_url ''ws://localhost:1234''\<rparr>"
    and w0n: "with_block None cfg_a init_locals =
      Inr \<lparr>contents = [], data = cfg_a, rollup_address = JStr ''0xabc'',
           extra_flags = '' -password=p0'', eth_url = rewrite_eth_url ''ws://localhost:1234''\<rparr>"
    by (simp_all add: with_block_eq cfg_a_def init_locals_def)
  have w1: "with_block (Some ''pw'') cfg_b init_locals =
      Inr \<lparr>contents = [], data = cfg_b, rollup_address = JStr ''0xabc'',
           extra_flags = '' -password=pw'', eth_url = rewrite_eth_url ''ws://localhost:1234''\<rparr>"
    by (simp add: with_block_eq cfg_b_def init_locals_def)
  from blocktime_scoping [OF o0 w0 b0] blocktime_scoping [OF o0 w0n b0]
    blocktime_scoping [OF o1 w1 b1]
  show ?thesis by (simp add: cfg_a_def)
qed

lemma with_block_contents:
  "with_block password d st =
     (case with_block password d st' of
        Inl e \<Rightarrow> Inl e
      | Inr s \<Rightarrow> Inr (s\<lparr>contents := contents st\<rparr>))"
  by (simp add: with_block_eq split: option.splits json.splits)

text \<open>
  C10. Per-node flag isolation. One iteration of the loop, entered with any values of
  the local variables left by earlier iterations and in any environment that agrees on
  the working directory and on node i's own configuration, fails with the same exception
  or leaves the same flags, endpoint and rollup address and renders the same block: the
  block of node i depends on node i's configuration, the index i and the command-line
  password only.
\<close>

theorem per_node_flag_isolation:
  assumes "cwd w = cwd w'" and "open_config w rollup i = open_config w' rollup i"
  shows "case (loop_body password w rollup i st, loop_body password w' rollup i st') of
           (Inl e, Inl e') \<Rightarrow> e = e'
         | (Inr s, Inr s') \<Rightarrow>
             extra_flags s = extra_flags s' \<and> eth_url s = eth_url s' \<and>
             rollup_address s = rollup_address s' \<and> data s = data s' \<and>
             (\<exists>b. contents s = (if i = 0 then b else contents st @ b) \<and>
                  contents s' = (if i = 0 then b else contents st' @ b))
         | (Inl e, Inr s') \<Rightarrow> False
         | (Inr s, Inl e') \<Rightarrow> False"
proof (cases "open_config w' rollup i")
  case (Inl e)
  with assms show ?thesis by (simp add: loop_body_def)
next
  case (Inr d)
  have sp: "states_path w rollup = states_path w' rollup"
    using assms(1) by (simp add: states_path_def fun_eq_iff)
  show ?thesis
  proof (cases "with_block password d st'")
    case (Inl e)
    then have "with_block password d st = Inl e"
      by (simp add: with_block_contents [of password d st st'])
    with Inl Inr assms show ?thesis by (simp add: loop_body_def)
  next
    case s1: (Inr s1)
    then have "with_block password d st = Inr (s1\<lparr>contents := contents st\<rparr>)"
      by (simp add: with_block_contents [of password d st st'])
    with s1 Inr assms(2) sp show ?thesis
      by (simp add: loop_body_eq Let_def del: append.simps append_assoc)
  qed
qed

theorem per_node_flag_isolation_witness:
  "\<exists>s s'.
     loop_body (Some ''pw'') (example_world [0, 1] 0) ''mychain'' 1 init_locals = Inr s \<and>
     loop_body (Some ''pw'') ((example_world [0, 1, 2] 7)\<lparr>config_files := \<lambda>r i. Inr cfg_b\<rparr>)
       ''mychain'' 1
       \<lparr>contents = ''earlier'', data = cfg_a, rollup_address = JStr ''0xdef'',
        extra_flags = '' -password=p0 -blocktime=100'', eth_url = ''ws://other''\<rparr> = Inr s' \<and>
     extra_flags s = '' -password=pw -blocktime=5'' \<and>
     extra_flags s' = '' -password=pw -blocktime=5''"
proof -
  let ?w = "example_world [0, 1] 0"
  let ?w' = "(example_world [0, 1, 2] 7)\<lparr>config_files := \<lambda>r i. Inr cfg_b\<rparr>"
  have c: "cwd ?w = cwd ?w'"
    by (simp add: example_world_def)
  have o: "open_config ?w ''mychain'' 1 = open_config ?w' ''mychain'' 1"
    by (simp add: open_config_def example_world_def)
  have l: "\<exists>s. loop_body (Some ''pw'') ?w ''mychain'' 1 init_locals = Inr s \<and>
      extra_flags s = '' -password=pw -blocktime=5''"
    by (simp add: loop_body_eq with_block_eq open_config_def example_world_def cfg_b_def
        init_locals_def Let_def del: append.simps)
  from per_node_flag_isolation [OF c o, where password = "Some ''pw''" and st = init_locals
      and st' = "\<lparr>contents = ''earlier'', data = cfg_a, rollup_address = JStr ''0xdef'',
        extra_flags = '' -password=p0 -blocktime=100'', eth_url = ''ws://other''\<rparr>"] l
  show ?thesis by (auto split: sum.splits)
qed

text \<open>
  C6 (as amended). Rendered command shapes. When node i's configuration loads and its
  password resolves, the iteration renders: for node 0 the aggregator block, mounting the
  state path of index 0, whose command is \<open><resolved_flags> state <endpoint>
  <rollup_address>\<close> (the flags come before the word \<open>state\<close>); for every node i from 1
  on a block appended to the manifest, for the service \<open>arb-validator<i>\<close> (a name no
  other index has), mounting the state path of index i, whose command is
  \<open>validate <resolved_flags> state <endpoint> <rollup_address>\<close>.
\<close>

theorem rendered_command_shapes:
  assumes "open_config w rollup i = Inr d" and "with_block password d st = Inr st1"
  shows "\<exists>st'. loop_body password w rollup i st = Inr st' \<and>
     contents st' =
       (if i = 0 then
          ''# Machine generated by `arb-deploy`. Do not version control.'' @ nl @
          ''version: '' @ [CHR 0x27] @ ''3'' @ [CHR 0x27] @ nl @
          ''networks:'' @ nl @
          ''    default:'' @ nl @
          ''        external:'' @ nl @
          ''            name: arb-network'' @ nl @
          ''services:'' @ nl @
          ''    arb-tx-aggregator:'' @ nl @
          ''        volumes:'' @ nl @
          ''            - '' @ states_path w rollup 0 @ '':/home/user/state'' @ nl @
          ''        image: arb-validator'' @ nl @
          ''        entrypoint: '' @ [CHR 0x27] @ ''/home/user/go/bin/arb-tx-aggregator'' @
             [CHR 0x27] @ nl @
          ''        command: '' @ extra_flags st' @ '' state '' @ eth_url st' @ '' '' @
             py_str (rollup_address st') @ nl @
          ''        ports:'' @ nl @
          ''            - '' @ [CHR 0x27] @ ''1235:1235'' @ [CHR 0x27] @ nl @
          ''            - '' @ [CHR 0x27] @ ''8547:8547'' @ [CHR 0x27] @ nl
        else
          contents st @
          nl @
          ''    arb-validator'' @ str_nat i @ '':'' @ nl @
          ''        volumes:'' @ nl @
          ''            - '' @ states_path w rollup i @ '':/home/user/state'' @ nl @
          ''        image: arb-validator'' @ nl @
          ''        command: validate '' @ extra_flags st' @ '' state '' @ eth_url st' @ '' '' @
             py_str (rollup_address st') @ nl) \<and>
     (\<forall>j. ''arb-validator'' @ str_nat j = ''arb-validator'' @ str_nat i \<longrightarrow> j = i) \<and>
     (\<forall>j. states_path w rollup j = states_path w rollup i \<longrightarrow> j = i)"
proof -
  have "\<forall>j. ''arb-validator'' @ str_nat j = ''arb-validator'' @ str_nat i \<longrightarrow> j = i"
    using str_nat_inj by (simp del: append.simps)
  moreover have "\<forall>j. states_path w rollup j = states_path w rollup i \<longrightarrow> j = i"
    using str_nat_inj by (simp add: states_path_def del: append.simps)
  moreover from assms have "\<exists>st'. loop_body password w rollup i st = Inr st' \<and>
     contents st' =
       (if i = 0 then
          ''# Machine generated by `arb-deploy`. Do not version control.'' @ nl @
          ''version: '' @ [CHR 0x27] @ ''3'' @ [CHR 0x27] @ nl @
          ''networks:'' @ nl @
          ''    default:'' @ nl @
          ''        external:'' @ nl @
          ''            name: arb-network'' @ nl @
          ''services:'' @ nl @
          ''    arb-tx-aggregator:'' @ nl @
          ''        volumes:'' @ nl @
          ''            - '' @ states_path w rollup 0 @ '':/home/user/state'' @ nl @
          ''        image: arb-validator'' @ nl @
          ''        entrypoint: '' @ [CHR 0x27] @ ''/home/user/go/bin/arb-tx-aggregator'' @
             [CHR 0x27] @ nl @
          ''        command: '' @ extra_flags st' @ '' state '' @ eth_url st' @ '' '' @
             py_str (rollup_address st') @ nl @
          ''        ports:'' @ nl @
          ''            - '' @ [CHR 0x27] @ ''1235:1235'' @ [CHR 0x27] @ nl @
          ''            - '' @ [CHR 0x27] @ ''8547:8547'' @ [CHR 0x27] @ nl
        else
          contents st @
          nl @
          ''    arb-validator'' @ str_nat i @ '':'' @ nl @
          ''        volumes:'' @ nl @
          ''            - '' @ states_path w rollup i @ '':/home/user/state'' @ nl @
          ''        image: arb-validator'' @ nl @
          ''        command: validate '' @ extra_flags st' @ '' state '' @ eth_url st' @ '' '' @
             py_str (rollup_address st') @ nl)"
    by (simp add: loop_body_eq Let_def del: append.simps append_assoc)
  ultimately show ?thesis by blast
qed

lemma loop_body_fields:
  assumes "open_config w rollup i = Inr d" and "with_block password d st = Inr st1"
    and "loop_body password w rollup i st = Inr st'"
  shows "eth_url st' = eth_url st1 \<and> rollup_address st' = rollup_address st1 \<and>
         data st' = data st1 \<and>
         extra_flags st' =
           (if i \<noteq> 0 \<and> ''blocktime'' \<in> dom d
            then extra_flags st1 @ '' -blocktime='' @ py_str (the (d ''blocktime''))
            else extra_flags st1)"
  using assms by (auto simp: loop_body_eq Let_def split: if_splits)

theorem rendered_command_shapes_witness:
  "(\<exists>st'. loop_body (Some ''pw'') two_nodes ''mychain'' 0 init_locals = Inr st' \<and>
      contents st' =
          ''# Machine generated by `arb-deploy`. Do not version control.'' @ nl @
          ''version: '' @ [CHR 0x27] @ ''3'' @ [CHR 0x27] @ nl @
          ''networks:'' @ nl @
          ''    default:'' @ nl @
          ''        external:'' @ nl @
          ''            name: arb-network'' @ nl @
          ''services:'' @ nl @
          ''    arb-tx-aggregator:'' @ nl @
          ''        volumes:'' @ nl @
          ''            - /srv/rollups/mychain/validator0:/home/user/state'' @ nl @
          ''        image: arb-validator'' @ nl @
          ''        entrypoint: '' @ [CHR 0x27] @ ''/home/user/go/bin/arb-tx-aggregator'' @
             [CHR 0x27] @ nl @
          ''        command:  -password=pw state ws://arb-bridge-eth-geth:1234 0xabc'' @ nl @
          ''        ports:'' @ nl @
          ''            - '' @ [CHR 0x27] @ ''1235:1235'' @ [CHR 0x27] @ nl @
          ''            - '' @ [CHR 0x27] @ ''8547:8547'' @ [CHR 0x27] @ nl) \<and>
   (\<exists>st'. loop_body (Some ''pw'') two_nodes ''mychain'' 1 init_locals = Inr st' \<and>
      contents st' =
          nl @
          ''    arb-validator1:'' @ nl @
          ''        volumes:'' @ nl @
          ''            - /srv/rollups/mychain/validator1:/home/user/state'' @ nl @
          ''        image: arb-validator'' @ nl @
          ''        command: validate  -password=pw -blocktime=5 state ws://arb-bridge-eth-geth:1234 0xabc'' @ nl)"
proof -
  let ?w = two_nodes
  have o0: "open_config ?w ''mychain'' 0 = Inr cfg_a"
    and o1: "open_config ?w ''mychain'' 1 = Inr cfg_b"
    by (simp_all add: open_config_def example_world_def two_nodes_def)
  have u: "rewrite_eth_url ''ws://localhost:1234'' = ''ws://arb-bridge-eth-geth:1234''"
    by (simp add: rewrite_eth_url_def replace.simps)
  have w0: "with_block (Some ''pw'') cfg_a init_locals =
      Inr \<lparr>contents = [], data = cfg_a, rollup_address = JStr ''0xabc'',
           extra_flags = '' -password=pw'', eth_url = ''ws://arb-bridge-eth-geth:1234''\<rparr>"
    by (simp add: with_block_eq cfg_a_def init_locals_def u)
  have w1: "with_block (Some ''pw'') cfg_b init_locals =
      Inr \<lparr>contents = [], data = cfg_b, rollup_address = JStr ''0xabc'',
           extra_flags = '' -password=pw'', eth_url = ''ws://arb-bridge-eth-geth:1234''\<rparr>"
    by (simp add: with_block_eq cfg_b_def init_locals_def u)
  have s0: "states_path ?w ''mychain'' 0 = ''/srv/rollups/mychain/validator0''"
    and s1: "states_path ?w ''mychain'' (Suc 0) = ''/srv/rollups/mychain/validator1''"
    and n1: "str_nat (Suc 0) = ''1''"
    by (simp_all add: states_path_def example_world_def two_nodes_def str_nat.simps digit_char_def)
  from rendered_command_shapes [OF o0 w0] obtain a where
    a: "loop_body (Some ''pw'') ?w ''mychain'' 0 init_locals = Inr a"
    and ca: "contents a =
          ''# Machine generated by `arb-deploy`. Do not version control.'' @ nl @
          ''version: '' @ [CHR 0x27] @ ''3'' @ [CHR 0x27] @ nl @
          ''networks:'' @ nl @
          ''    default:'' @ nl @
          ''        external:'' @ nl @
          ''            name: arb-network'' @ nl @
          ''services:'' @ nl @
          ''    arb-tx-aggregator:'' @ nl @
          ''        volumes:'' @ nl @
          ''            - '' @ states_path ?w ''mychain'' 0 @ '':/home/user/state'' @ nl @
          ''        image: arb-validator'' @ nl @
          ''        entrypoint: '' @ [CHR 0x27] @ ''/home/user/go/bin/arb-tx-aggregator'' @
             [CHR 0x27] @ nl @
          ''        command: '' @ extra_flags a @ '' state '' @ eth_url a @ '' '' @
             py_str (rollup_address a) @ nl @
          ''        ports:'' @ nl @
          ''            - '' @ [CHR 0x27] @ ''1235:1235'' @ [CHR 0x27] @ nl @
          ''            - '' @ [CHR 0x27] @ ''8547:8547'' @ [CHR 0x27] @ nl"
    by (auto simp del: append.simps append_assoc)
  from rendered_command_shapes [OF o1 w1] obtain b where
    b: "loop_body (Some ''pw'') ?w ''mychain'' 1 init_locals = Inr b"
    and cb: "contents b =
          contents init_locals @ nl @
          ''    arb-validator'' @ str_nat 1 @ '':'' @ nl @
          ''        volumes:'' @ nl @
          ''            - '' @ states_path ?w ''mychain'' 1 @ '':/home/user/state'' @ nl @
          ''        image: arb-validator'' @ nl @
          ''        command: validate '' @ extra_flags b @ '' state '' @ eth_url b @ '' '' @
             py_str (rollup_address b) @ nl"
    by (auto simp del: append.simps append_assoc)
  have "contents a =
          ''# Machine generated by `arb-deploy`. Do not version control.'' @ nl @
          ''version: '' @ [CHR 0x27] @ ''3'' @ [CHR 0x27] @ nl @
          ''networks:'' @ nl @
          ''    default:'' @ nl @
          ''        external:'' @ nl @
          ''            name: arb-network'' @ nl @
          ''services:'' @ nl @
          ''    arb-tx-aggregator:'' @ nl @
          ''        volumes:'' @ nl @
          ''            - /srv/rollups/mychain/validator0:/home/user/state'' @ nl @
          ''        image: arb-validator'' @ nl @
          ''        entrypoint: '' @ [CHR 0x27] @ ''/home/user/go/bin/arb-tx-aggregator'' @
             [CHR 0x27] @ nl @
          ''        command:  -password=pw state ws://arb-bridge-eth-geth:1234 0xabc'' @ nl @
          ''        ports:'' @ nl @
          ''            - '' @ [CHR 0x27] @ ''1235:1235'' @ [CHR 0x27] @ nl @
          ''            - '' @ [CHR 0x27] @ ''8547:8547'' @ [CHR 0x27] @ nl"
    using ca loop_body_fields [OF o0 w0 a] by (simp add: s0)
  moreover have "contents b =
          nl @
          ''    arb-validator1:'' @ nl @
          ''        volumes:'' @ nl @
          ''            - /srv/rollups/mychain/validator1:/home/user/state'' @ nl @
          ''        image: arb-validator'' @ nl @
          ''        command: validate  -password=pw -blocktime=5 state ws://arb-bridge-eth-geth:1234 0xabc'' @ nl"
    using cb loop_body_fields [OF o1 w1 b] by (simp add: s1 n1 init_locals_def cfg_b_def)
  ultimately show ?thesis using a b by simp
qed

theorem aggregator_command_counterexample:
  "case loop_body (Some ''pw'') two_nodes ''mychain'' 0 init_locals of
     Inl e \<Rightarrow> False
   | Inr st' \<Rightarrow>
       sublist (''command:  -password=pw state ws://arb-bridge-eth-geth:1234 0xabc'' @ nl)
         (contents st') \<and>
       \<not> sublist ''command: state'' (contents st')"
  by (simp add: loop_body_eq with_block_eq open_config_def example_world_def two_nodes_def cfg_a_def
      init_locals_def states_path_def str_nat.simps digit_char_def rewrite_eth_url_def
      replace.simps nl_def sublist_code(3))

section \<open>The deployment as a whole\<close>

lemma run_fields:
  "cwd (run c a b q w) = cwd w" "validator_dirs (run c a b q w) = validator_dirs w"
  "config_files (run c a b q w) = config_files w" "manifest (run c a b q w) = manifest w"
  "docker_ps (run c a b q w) = docker_ps w" "build_status (run c a b q w) = build_status w"
  "trace (run c a b q w) = trace w @ [Run c a b q]"
  by (simp_all add: run_def)

lemma halt_docker_fields:
  "cwd (halt_docker s w) = cwd w" "validator_dirs (halt_docker s w) = validator_dirs w"
  "config_files (halt_docker s w) = config_files w" "manifest (halt_docker s w) = manifest w"
  "docker_ps (halt_docker s w) = docker_ps w" "build_status (halt_docker s w) = build_status w"
  by (simp_all add: halt_docker_def Let_def run_fields)

lemma suffix_up_last: "suffix '' up'' c \<Longrightarrow> c \<noteq> [] \<and> last c = CHR ''p''"
  by (auto simp: suffix_def)

lemma halt_docker_trace:
  "\<exists>evs. trace (halt_docker s w) = trace w @ evs \<and>
     (\<forall>e \<in> set evs. \<exists>c a b q. e = Run c a b q \<and> \<not> suffix '' up'' c)"
proof -
  have 1: "\<not> suffix '' up'' (''docker-compose -f ./'' @ DOCKER_COMPOSE_FILENAME @ '' down -t 0'')"
    using suffix_up_last by fastforce
  have 2: "\<not> suffix '' up'' (''docker ps | '' @ ps_filter)"
    using suffix_up_last by (fastforce simp: ps_filter_def)
  have 3: "\<not> suffix '' up'' (x @ y @ z @ ps_filter @ '')'')" for x y z
    using suffix_up_last by fastforce
  show ?thesis
    using 1 2 3 by (auto simp add: halt_docker_def Let_def run_fields simp del: append.simps)
qed

lemma n_validators_halt: "n_validators (halt_docker s w) rollup = n_validators w rollup"
  by (simp add: n_validators_def halt_docker_fields)

lemma open_config_halt: "open_config (halt_docker s w) rollup i = open_config w rollup i"
  by (simp add: open_config_def halt_docker_fields)

lemma states_path_halt: "states_path (halt_docker s w) rollup i = states_path w rollup i"
  by (simp add: states_path_def halt_docker_fields)

lemma loop_body_halt:
  "loop_body password (halt_docker s w) rollup i st = loop_body password w rollup i st"
  by (auto simp: loop_body_def open_config_halt states_path_halt split: sum.splits)

lemma deploy_loop_halt:
  "deploy_loop password (halt_docker s w) rollup is st = deploy_loop password w rollup is st"
  by (induction "is" arbitrary: st) (simp_all add: loop_body_halt split: sum.splits)

lemma deploy_loop_failed:
  assumes "deploy_loop password w rollup [0..<n_validators w rollup] init_locals = Inl e"
  shows "deploy s b u rollup password w = (Inl e, halt_docker s w)"
  using assms by (simp add: deploy_def Let_def n_validators_halt deploy_loop_halt)

lemma deploy_loop_fails_at:
  assumes "k \<in> set is" and "\<And>st. \<exists>e. loop_body password w rollup k st = Inl e"
  shows "\<exists>e. deploy_loop password w rollup is st = Inl e"
  using assms(1)
proof (induction "is" arbitrary: st)
  case Nil
  then show ?case by simp
next
  case (Cons i "is")
  show ?case
  proof (cases "loop_body password w rollup i st")
    case (Inl e)
    then show ?thesis by simp
  next
    case (Inr st')
    show ?thesis
    proof (cases "i = k")
      case True
      with Inr assms(2) [of st] show ?thesis by simp
    next
      case False
      with Cons have "\<exists>e. deploy_loop password w rollup is st' = Inl e" by simp
      with Inr show ?thesis by simp
    qed
  qed
qed

lemma loop_body_no_password:
  assumes "\<not> truthy password" and "open_config w rollup k = Inr d" and "d ''password'' = None"
  shows "\<exists>e. loop_body password w rollup k st = Inl e \<and>
           (node_config_ok d \<longrightarrow> e = Exception PASSWORD_MESSAGE)"
  using assms
  by (auto simp: loop_body_def with_block_eq node_config_ok_def split: option.splits json.splits)

lemma loop_body_ok_config:
  assumes "\<not> truthy password" and "open_config w rollup j = Inr d" and "node_config_ok d"
  shows "loop_body password w rollup j st = Inl (Exception PASSWORD_MESSAGE) \<or>
         (\<exists>st'. loop_body password w rollup j st = Inr st')"
  using assms
  by (auto simp: loop_body_eq with_block_eq node_config_ok_def Let_def
      split: option.splits json.splits)

lemma deploy_loop_password_error:
  assumes "\<not> truthy password"
    and "\<forall>j \<in> set pre. \<exists>dj. open_config w rollup j = Inr dj \<and> node_config_ok dj"
    and "open_config w rollup k = Inr d" and "d ''password'' = None" and "node_config_ok d"
  shows "deploy_loop password w rollup (pre @ k # post) st = Inl (Exception PASSWORD_MESSAGE)"
  using assms(2)
proof (induction pre arbitrary: st)
  case Nil
  from loop_body_no_password [OF assms(1,3,4), of st] assms(5) show ?case by auto
next
  case (Cons j pre)
  then obtain dj where "open_config w rollup j = Inr dj" "node_config_ok dj" by auto
  from loop_body_ok_config [OF assms(1) this, of st] Cons show ?case by auto
qed

lemma upt_split_at: "k < n \<Longrightarrow> [0..<n] = [0..<k] @ k # [Suc k..<n]"
proof -
  assume k: "k < n"
  then have "[0..<n] = [0..<k] @ [k..<n]"
    using upt_add_eq_append [of 0 k "n - k"] by simp
  also have "[k..<n] = k # [Suc k..<n]"
    using k by (rule upt_conv_Cons)
  finally show ?thesis .
qed


text \<open>
  C2. Password-failure atomicity. When the command-line password is absent (or empty)
  and the configuration of some scanned node k has no \<open>password\<close> field, \<open>deploy\<close> fails, the
  manifest file is left as it was, and nothing but the teardown commands of the halt
  procedure has run (no write, no build, no \<open>up\<close>); when moreover the configurations of
  the nodes up to k are well formed, the failure is the exception whose message names the
  missing password.
\<close>

theorem password_failure_atomic:
  assumes "\<not> truthy password" and "k < n_validators w rollup"
    and "open_config w rollup k = Inr d" and "d ''password'' = None"
  shows "(\<exists>e. fst (deploy s b u rollup password w) = Inl e) \<and>
         manifest (snd (deploy s b u rollup password w)) = manifest w \<and>
         (\<exists>evs. trace (snd (deploy s b u rollup password w)) = trace w @ evs \<and>
            (\<forall>e \<in> set evs. \<exists>c a b' q. e = Run c a b' q \<and> \<not> suffix '' up'' c)) \<and>
         ((\<forall>j\<le>k. \<exists>dj. open_config w rollup j = Inr dj \<and> node_config_ok dj) \<longrightarrow>
            fst (deploy s b u rollup password w) = Inl (Exception PASSWORD_MESSAGE))"
proof -
  let ?is = "[0..<n_validators w rollup]"
  have "\<exists>e. loop_body password w rollup k st = Inl e" for st
    using loop_body_no_password [OF assms(1,3,4)] by blast
  moreover have "k \<in> set ?is" using assms(2) by simp
  ultimately obtain e where e: "deploy_loop password w rollup ?is init_locals = Inl e"
    using deploy_loop_fails_at by blast
  then have d: "deploy s b u rollup password w = (Inl e, halt_docker s w)"
    by (rule deploy_loop_failed)
  have "e = Exception PASSWORD_MESSAGE"
    if ok: "\<forall>j\<le>k. \<exists>dj. open_config w rollup j = Inr dj \<and> node_config_ok dj"
  proof -
    have split: "?is = [0..<k] @ k # [Suc k..<n_validators w rollup]"
      using assms(2) by (rule upt_split_at)
    from ok assms(3) have okd: "node_config_ok d" by auto
    from ok have pre: "\<forall>j \<in> set [0..<k]. \<exists>dj. open_config w rollup j = Inr dj \<and> node_config_ok dj"
      by simp
    have "deploy_loop password w rollup ([0..<k] @ k # [Suc k..<n_validators w rollup])
        init_locals = Inl (Exception PASSWORD_MESSAGE)"
      using assms(1) pre assms(3,4) okd by (rule deploy_loop_password_error)
    then have "deploy_loop password w rollup ?is init_locals = Inl (Exception PASSWORD_MESSAGE)"
      by (simp only: split [symmetric])
    with e show ?thesis by simp
  qed
  moreover from d have "fst (deploy s b u rollup password w) = Inl e"
    and "snd (deploy s b u rollup password w) = halt_docker s w" by simp_all
  ultimately show ?thesis
    using halt_docker_trace [of s w] by (simp only: halt_docker_fields) blast
qed

theorem password_failure_atomic_witness:
  "fst (deploy False False False ''mychain'' None two_nodes) = Inl (Exception PASSWORD_MESSAGE) \<and>
   manifest (snd (deploy False False False ''mychain'' None two_nodes)) = Some ''old''"
proof -
  have n: "1 < n_validators two_nodes ''mychain''"
    by (simp add: n_validators_def two_nodes_def example_world_def discovery_loop.simps)
  have o: "open_config two_nodes ''mychain'' 1 = Inr cfg_b"
    by (simp add: open_config_def two_nodes_def example_world_def)
  have p: "cfg_b ''password'' = None"
    by (simp add: cfg_b_def)
  have t: "\<not> truthy None" by simp
  have ok: "\<forall>j\<le>1. \<exists>dj. open_config two_nodes ''mychain'' j = Inr dj \<and> node_config_ok dj"
    by (auto simp: le_Suc_eq open_config_def two_nodes_def example_world_def node_config_ok_def
        cfg_a_def cfg_b_def)
  have m: "manifest two_nodes = Some ''old''"
    by (simp add: two_nodes_def example_world_def)
  from password_failure_atomic [OF t n o p, of False False False] ok m
  show ?thesis by simp
qed




section \<open>Build failure and the command line\<close>

lemma deploy_build_failed:
  assumes "deploy_loop password w rollup [0..<n_validators w rollup] init_locals = Inr st"
    and "\<not> up_flag \<or> build_flag" and "build_status w \<noteq> 0"
  shows "deploy sudo_flag build_flag up_flag rollup password w =
     (Inl (SystemExit 1),
      (halt_docker sudo_flag w)\<lparr>manifest := Some (contents st),
         trace := trace (halt_docker sudo_flag w) @
           [WriteFile (compose_path w) (contents st), BuildValidator sudo_flag]\<rparr>)"
  using assms
  by (simp add: deploy_def Let_def n_validators_halt deploy_loop_halt build_phase_def
      halt_docker_fields compose_path_def)

text \<open>
  C7 (as amended). Build-failure abort. Whenever the manifest has been rendered, the
  build step is due (not up-only, or build-only) and it reports a non-zero status,
  \<open>deploy\<close> stops with \<open>exit(1)\<close>, whatever the non-zero status was; the manifest has been
  written and the build was the last thing done: no \<open>up\<close> command and no announcement of
  the launch has been issued.
\<close>

theorem build_failure_aborts:
  assumes "deploy_loop password w rollup [0..<n_validators w rollup] init_locals = Inr st"
    and "\<not> up_flag \<or> build_flag" and "build_status w \<noteq> 0"
  shows "fst (deploy sudo_flag build_flag up_flag rollup password w) = Inl (SystemExit 1) \<and>
         manifest (snd (deploy sudo_flag build_flag up_flag rollup password w)) =
           Some (contents st) \<and>
         (\<exists>evs. trace (snd (deploy sudo_flag build_flag up_flag rollup password w)) =
                  trace w @ evs @
                    [WriteFile (compose_path w) (contents st), BuildValidator sudo_flag] \<and>
            (\<forall>e \<in> set evs. \<exists>c a b q. e = Run c a b q \<and> \<not> suffix '' up'' c))"
proof -
  from halt_docker_trace [of sudo_flag w] obtain evs where
    "trace (halt_docker sudo_flag w) = trace w @ evs"
    and "\<forall>e \<in> set evs. \<exists>c a b q. e = Run c a b q \<and> \<not> suffix '' up'' c"
    by blast
  then show ?thesis
    by (simp only: deploy_build_failed [OF assms]) auto
qed

lemma single_node_loop:
  "\<exists>st. deploy_loop (Some ''pw'') (example_world [0] status) ''mychain''
           [0..<n_validators (example_world [0] status) ''mychain''] init_locals = Inr st"
proof -
  let ?w = "example_world [0] status"
  have n: "n_validators ?w ''mychain'' = 1"
    by (simp add: n_validators_def example_world_def discovery_loop.simps)
  have o: "open_config ?w ''mychain'' 0 = Inr cfg_a"
    by (simp add: open_config_def example_world_def)
  have "\<exists>st1. with_block (Some ''pw'') cfg_a init_locals = Inr st1"
    by (simp add: with_block_eq cfg_a_def)
  then have "\<exists>st. loop_body (Some ''pw'') ?w ''mychain'' 0 init_locals = Inr st"
    by (auto simp: loop_body_eq o)
  then show ?thesis by (auto simp: n)
qed

theorem build_failure_aborts_witness:
  "fst (deploy False False False ''mychain'' (Some ''pw'') failing_build) = Inl (SystemExit 1)"
proof -
  obtain st where st: "deploy_loop (Some ''pw'') failing_build ''mychain''
           [0..<n_validators failing_build ''mychain''] init_locals = Inr st"
    using single_node_loop [of 2] unfolding failing_build_def by blast
  have b: "build_status failing_build \<noteq> 0"
    by (simp add: failing_build_def example_world_def)
  have f: "\<not> False \<or> False" by simp
  from build_failure_aborts [OF st f b, of False] show ?thesis by simp
qed

theorem build_status_propagated_counterexample:
  "build_status failing_build = 2 \<and>
   fst (deploy False False False ''mychain'' (Some ''pw'') failing_build) = Inl (SystemExit 1)"
proof -
  obtain st where st: "deploy_loop (Some ''pw'') failing_build ''mychain''
           [0..<n_validators failing_build ''mychain''] init_locals = Inr st"
    using single_node_loop [of 2] unfolding failing_build_def by blast
  have b: "build_status failing_build = 2"
    by (simp add: failing_build_def example_world_def)
  then have "build_status failing_build \<noteq> 0" by simp
  from deploy_build_failed [OF st _ this, of False False False] b show ?thesis by simp
qed

text \<open>
  C8 (as amended). Mutual exclusivity. An invocation that supplies both the build-only
  and the up-only flag is rejected by the argument parser with exit status 2, after
  \<open>main\<close> has run the network-creation command \<open>./scripts/create-network\<close> and before
  \<open>deploy\<close> is called: that command is the only side effect, and there is no teardown,
  no write of the manifest, no build and no \<open>up\<close>.
\<close>

theorem both_flags_rejected_after_create_network:
  assumes "arg_build c" and "arg_up c"
  shows "main c w =
     (Inl (SystemExit 2),
      w\<lparr>trace := trace w @ [Run ''./scripts/create-network'' False False False]\<rparr>)"
  using assms by (simp add: main_def parse_args_def run_def)

theorem both_flags_rejected_after_create_network_witness:
  "main both_flags two_nodes =
     (Inl (SystemExit 2),
      two_nodes\<lparr>trace := trace two_nodes @ [Run ''./scripts/create-network'' False False False]\<rparr>)"
proof -
  have "arg_build both_flags" and "arg_up both_flags"
    by (simp_all add: both_flags_def)
  then show ?thesis by (rule both_flags_rejected_after_create_network)
qed

theorem no_side_effect_counterexample:
  "arg_build both_flags \<and> arg_up both_flags \<and> trace two_nodes = [] \<and>
   trace (snd (main both_flags two_nodes)) = [Run ''./scripts/create-network'' False False False]"
  by (simp add: main_def parse_args_def run_def both_flags_def two_nodes_def example_world_def)

end
